theory Spec2Isabelle
  imports Complex_Main "HOL-Library.Sublist" "HOL-Library.Char_ord" "HOL-Library.List_Lexorder"
    "HOL-Library.Multiset"
begin

section \<open>JavaScript built-ins used by the dashboard\<close>

text \<open>
  Strings are sequences of code units; the model keeps the code units below 256, which is
  what the week selector, the URLs and the record fields of the screens hold.  A JavaScript
  number is modelled as an unbounded integer or \<open>NaN\<close>; values beyond \<open>2^53\<close>, where a
  double loses precision, are outside the model.
\<close>

datatype js_number = NaN | Num int

text \<open>\<open>String.prototype.includes\<close>: the argument occurs as a contiguous run.\<close>

fun str_includes :: "string \<Rightarrow> string \<Rightarrow> bool" where
  "str_includes [] sub = (sub = [])"
| "str_includes (c # cs) sub = (prefix sub (c # cs) \<or> str_includes cs sub)"

text \<open>
  \<open>String.prototype.split\<close> with a separator: the string is cut at every occurrence of the
  separator, scanning left to right; \<open>acc\<close> is the piece being collected.  An empty
  separator cuts between all code units.
\<close>

function split_from :: "string \<Rightarrow> string \<Rightarrow> string \<Rightarrow> string list" where
  "split_from sep acc [] = [acc]"
| "split_from sep acc (c # cs) =
     (if sep \<noteq> [] \<and> prefix sep (c # cs)
      then acc # split_from sep [] (drop (length sep) (c # cs))
      else split_from sep (acc @ [c]) cs)"
  by pat_completeness auto
termination
  by (relation "measure (\<lambda>(sep, acc, s). length s)") (auto simp: neq_Nil_conv)

definition str_split :: "string \<Rightarrow> string \<Rightarrow> string list" where
  "str_split s sep = (if sep = [] then map (\<lambda>c. [c]) s else split_from sep [] s)"

text \<open>
  Array destructuring \<open>const [a, b] = pieces\<close> reads index 0 and index 1; a missing index
  gives \<open>undefined\<close>, here \<open>None\<close>.
\<close>

definition element :: "'a list \<Rightarrow> nat \<Rightarrow> 'a option" where
  "element xs i = (if i < length xs then Some (xs ! i) else None)"

text \<open>
  \<open>parseInt\<close> with no radix argument, after ECMA-262: leading white space is dropped, one
  sign is read, a \<open>0x\<close> or \<open>0X\<close> prefix selects radix 16, and the longest run of digits of the
  radix is the value; no digit at all gives \<open>NaN\<close>.
\<close>

definition is_white_space :: "char \<Rightarrow> bool" where
  "is_white_space c = (c \<in> set [CHR 0x09, CHR 0x0A, CHR 0x0B, CHR 0x0C, CHR 0x0D, CHR 0x20, CHR 0xA0])"

definition digit_val :: "char \<Rightarrow> nat" where
  "digit_val c =
     (let n = (of_char c :: nat)
      in if 48 \<le> n \<and> n \<le> 57 then n - 48
         else if 97 \<le> n \<and> n \<le> 122 then n - 87
         else if 65 \<le> n \<and> n \<le> 90 then n - 55
         else 36)"

definition is_radix_digit :: "nat \<Rightarrow> char \<Rightarrow> bool" where
  "is_radix_digit R c = (digit_val c < R)"

definition digits_value :: "nat \<Rightarrow> string \<Rightarrow> nat" where
  "digits_value R Z = foldl (\<lambda>acc c. acc * R + digit_val c) 0 Z"

definition parseInt :: "string \<Rightarrow> js_number" where
  "parseInt inputString =
     (let S = dropWhile is_white_space inputString;
          sign = (if S \<noteq> [] \<and> hd S = CHR ''-'' then - 1 else 1);
          S = (if S \<noteq> [] \<and> (hd S = CHR ''+'' \<or> hd S = CHR ''-'') then tl S else S);
          hex = (prefix ''0x'' S \<or> prefix ''0X'' S);
          R = (if hex then 16 else 10);
          S = (if hex then drop 2 S else S);
          Z = takeWhile (is_radix_digit R) S
      in if Z = [] then NaN else Num (sign * int (digits_value R Z)))"

text \<open>\<open>parseInt(undefined)\<close> converts its argument to the string \<open>undefined\<close> first.\<close>

definition parseInt_arg :: "string option \<Rightarrow> js_number" where
  "parseInt_arg a = (case a of None \<Rightarrow> parseInt ''undefined'' | Some s \<Rightarrow> parseInt s)"

definition isNaN :: "js_number \<Rightarrow> bool" where
  "isNaN x = (x = NaN)"

text \<open>\<open>String(n)\<close> and \<open>${n}\<close> for a number: decimal digits, a minus sign, or \<open>NaN\<close>.\<close>

fun string_of_nat :: "nat \<Rightarrow> string" where
  "string_of_nat n =
     (if n < 10 then [''0123456789'' ! n]
      else string_of_nat (n div 10) @ [''0123456789'' ! (n mod 10)])"

definition string_of_int :: "int \<Rightarrow> string" where
  "string_of_int i = (if i < 0 then CHR ''-'' # string_of_nat (nat (- i)) else string_of_nat (nat i))"

definition string_of_number :: "js_number \<Rightarrow> string" where
  "string_of_number x = (case x of NaN \<Rightarrow> ''NaN'' | Num i \<Rightarrow> string_of_int i)"

text \<open>\<open>String.prototype.padStart\<close> with a one-character filler.\<close>

definition padStart :: "string \<Rightarrow> nat \<Rightarrow> char \<Rightarrow> string" where
  "padStart s n c = replicate (n - length s) c @ s"

text \<open>
  The values of the language that the screens compare and convert: \<open>undefined\<close>, \<open>null\<close>,
  a number and a string.  A numeric conversion gives \<open>NaN\<close>, an infinity or a finite value;
  finite values are kept exact, so the rounding of a literal to a double, and the overflow
  of a literal beyond the range of a double, are outside the model.
\<close>

datatype js_value = Undefined | Null | Number rat | Str string

datatype number_value = NaN_value | Minus_Infinity | Finite rat | Plus_Infinity

text \<open>\<open>x < y\<close> on two numbers: false when either is \<open>NaN\<close>.\<close>

fun number_less :: "number_value \<Rightarrow> number_value \<Rightarrow> bool" where
  "number_less NaN_value _ = False"
| "number_less _ NaN_value = False"
| "number_less Minus_Infinity Minus_Infinity = False"
| "number_less Minus_Infinity _ = True"
| "number_less _ Minus_Infinity = False"
| "number_less Plus_Infinity _ = False"
| "number_less _ Plus_Infinity = True"
| "number_less (Finite a) (Finite b) = (a < b)"

text \<open>
  The conversion of a string to a number, after ECMA-262 (\<open>StringToNumber\<close>): white space
  is trimmed at both ends; the empty string is 0; a prefix \<open>0x\<close>, \<open>0o\<close> or \<open>0b\<close> (in either
  case, without a sign) starts an integer in radix 16, 8 or 2; otherwise there may be one
  sign, followed by \<open>Infinity\<close> or by a decimal literal with an optional fraction and an
  optional exponent.  The whole string has to match; everything else is \<open>NaN\<close>.
\<close>

definition trim :: "string \<Rightarrow> string" where
  "trim s = rev (dropWhile is_white_space (rev (dropWhile is_white_space s)))"

definition radix_literal :: "nat \<Rightarrow> string \<Rightarrow> number_value" where
  "radix_literal R ds =
     (if ds \<noteq> [] \<and> list_all (is_radix_digit R) ds then Finite (of_nat (digits_value R ds))
      else NaN_value)"

definition pow10 :: "int \<Rightarrow> rat" where
  "pow10 e = (if 0 \<le> e then 10 ^ nat e else 1 / 10 ^ nat (- e))"

definition decimal_literal :: "string \<Rightarrow> rat option" where
  "decimal_literal u =
     (let int_part = takeWhile (is_radix_digit 10) u;
          r1 = dropWhile (is_radix_digit 10) u;
          dot = (r1 \<noteq> [] \<and> hd r1 = CHR ''.'');
          frac_part = (if dot then takeWhile (is_radix_digit 10) (tl r1) else []);
          r2 = (if dot then dropWhile (is_radix_digit 10) (tl r1) else r1);
          mantissa = of_nat (digits_value 10 (int_part @ frac_part)) / 10 ^ length frac_part
      in if int_part = [] \<and> frac_part = [] then None
         else if r2 = [] then Some mantissa
         else if hd r2 = CHR ''e'' \<or> hd r2 = CHR ''E''
         then (let r3 = tl r2;
                   eneg = (r3 \<noteq> [] \<and> hd r3 = CHR ''-'');
                   ds = (if r3 \<noteq> [] \<and> (hd r3 = CHR ''+'' \<or> hd r3 = CHR ''-'') then tl r3 else r3);
                   e = int (digits_value 10 ds)
               in if ds \<noteq> [] \<and> list_all (is_radix_digit 10) ds
                  then Some (mantissa * pow10 (if eneg then - e else e))
                  else None)
         else None)"

definition StringToNumber :: "string \<Rightarrow> number_value" where
  "StringToNumber s =
     (let t = trim s
      in if t = [] then Finite 0
         else if prefix ''0x'' t \<or> prefix ''0X'' t then radix_literal 16 (drop 2 t)
         else if prefix ''0o'' t \<or> prefix ''0O'' t then radix_literal 8 (drop 2 t)
         else if prefix ''0b'' t \<or> prefix ''0B'' t then radix_literal 2 (drop 2 t)
         else (let neg = (hd t = CHR ''-'');
                   u = (if hd t = CHR ''+'' \<or> hd t = CHR ''-'' then tl t else t)
               in if u = ''Infinity'' then (if neg then Minus_Infinity else Plus_Infinity)
                  else (case decimal_literal u of
                          None \<Rightarrow> NaN_value
                        | Some q \<Rightarrow> Finite (if neg then - q else q))))"

text \<open>\<open>ToNumber\<close>: \<open>undefined\<close> is \<open>NaN\<close> and \<open>null\<close> is 0.\<close>

definition to_number :: "js_value \<Rightarrow> number_value" where
  "to_number v =
     (case v of Undefined \<Rightarrow> NaN_value | Null \<Rightarrow> Finite 0 | Number r \<Rightarrow> Finite r
      | Str s \<Rightarrow> StringToNumber s)"

text \<open>
  The stages of \<open>parseInt\<close> taken one at a time: the sign, the hexadecimal prefix, and the
  digits after them.  They are used to reason about \<open>parseInt\<close> and are related to it by
  lemma \<open>parseInt_stages\<close>.
\<close>

definition hex_prefix :: "string \<Rightarrow> bool" where
  "hex_prefix S = (prefix ''0x'' S \<or> prefix ''0X'' S)"

definition strip_sign :: "string \<Rightarrow> string" where
  "strip_sign S0 = (if S0 \<noteq> [] \<and> (hd S0 = CHR ''+'' \<or> hd S0 = CHR ''-'') then tl S0 else S0)"

definition parse_unsigned :: "bool \<Rightarrow> string \<Rightarrow> js_number" where
  "parse_unsigned neg S =
     (let R = (if hex_prefix S then 16 else 10);
          Z = takeWhile (is_radix_digit R) (if hex_prefix S then drop 2 S else S)
      in if Z = [] then NaN else Num ((if neg then - 1 else 1) * int (digits_value R Z)))"

text \<open>
  The part of a string before the first occurrence of a separator, and the part after it;
  both are stated without reference to \<open>split\<close>.
\<close>

fun before_first :: "string \<Rightarrow> string \<Rightarrow> string" where
  "before_first [] sep = []"
| "before_first (c # cs) sep = (if prefix sep (c # cs) then [] else c # before_first cs sep)"

fun after_first :: "string \<Rightarrow> string \<Rightarrow> string" where
  "after_first [] sep = []"
| "after_first (c # cs) sep =
     (if prefix sep (c # cs) then drop (length sep) (c # cs) else after_first cs sep)"

section \<open>Report screen: the week parser\<close>

text \<open>
  \<open>parseWeek\<close> of the report screen.  Its argument is the value of the week input, a string;
  \<open>null\<close> in a result field is \<open>None\<close>.  No operation in its body can throw on a string.
\<close>

record parsed_week =
  year :: "js_number option"
  week :: "js_number option"

definition parseWeek :: "string \<Rightarrow> parsed_week" where
  "parseWeek weekValue =
     (if weekValue = [] \<or> \<not> str_includes weekValue ''-W'' then \<lparr>year = None, week = None\<rparr>
      else (let pieces = str_split weekValue ''-W'';
                yearStr = element pieces 0;
                weekStr = element pieces 1
            in \<lparr>year = Some (parseInt_arg yearStr), week = Some (parseInt_arg weekStr)\<rparr>))"


text \<open>
  The format the week input produces and the screens document, \<open>YYYY-Www\<close>: four decimal
  digits, the marker \<open>-W\<close>, two decimal digits.  Everything else is malformed.
\<close>

definition is_decimal_digit :: "char \<Rightarrow> bool" where
  "is_decimal_digit c = (48 \<le> (of_char c :: nat) \<and> (of_char c :: nat) \<le> 57)"

definition well_formed_week :: "string \<Rightarrow> bool" where
  "well_formed_week s =
     (length s = 8 \<and> list_all is_decimal_digit (take 4 s) \<and> take 2 (drop 4 s) = ''-W'' \<and>
      list_all is_decimal_digit (drop 6 s))"

section \<open>Performance screen: the request URL\<close>

text \<open>
  The URL that \<open>fetchPerformanceData\<close> builds from the selected week, the page and the page
  size (source lines 82 to 96 of the performance screen).
\<close>

definition summary_url :: string where
  "summary_url = ''http://127.0.0.1:8000/api/performance/summary/''"

definition paginatedUrl :: "string \<Rightarrow> js_number \<Rightarrow> js_number \<Rightarrow> string" where
  "paginatedUrl selWeek page pageSize =
     (let url = summary_url;
          url =
            (if selWeek \<noteq> [] \<and> str_includes selWeek ''-W''
             then (let pieces = str_split selWeek ''-W'';
                       year = parseInt_arg (element pieces 0);
                       weekNumber = parseInt_arg (element pieces 1)
                   in if \<not> isNaN year \<and> \<not> isNaN weekNumber
                      then url @ ''?week='' @ string_of_number weekNumber @
                             ''&year='' @ string_of_number year
                      else url)
             else url)
      in url @ (if str_includes url ''?'' then ''&'' else ''?'') @
           ''page='' @ string_of_number page @ ''&page_size='' @ string_of_number pageSize)"

section \<open>Performance screen: the selectable week range\<close>

text \<open>
  \<open>getAllowedWeeks\<close> reads the clock twice: \<open>today.getFullYear()\<close>, the calendar year of the
  local date, and \<open>today.toLocaleDateString("en-GB", {week: "numeric", year: "numeric"})\<close>.
  The date formatter of ECMA-402 reads the options \<open>weekday\<close>, \<open>era\<close>, \<open>year\<close>, \<open>month\<close>,
  \<open>day\<close>, \<open>dayPeriod\<close>, \<open>hour\<close>, \<open>minute\<close>, \<open>second\<close>, \<open>fractionalSecondDigits\<close> and
  \<open>timeZoneName\<close>; it has no option \<open>week\<close>, and a property it does not know is ignored.
  What is formatted is therefore the year alone, which for \<open>en-GB\<close> is the digits of the
  year of the era.
\<close>

record local_date =
  date_year :: int
  date_month :: nat
  date_day :: nat

definition getFullYear :: "local_date \<Rightarrow> int" where
  "getFullYear today = date_year today"

definition toLocaleDateString_week_year :: "local_date \<Rightarrow> string" where
  "toLocaleDateString_week_year today =
     string_of_int (if 1 \<le> date_year today then date_year today else 1 - date_year today)"

text \<open>
  \<open>Number(s)\<close> on the strings the formatter returns: a non-empty run of decimal digits is
  its value.  The other numeric forms (white space, sign, fraction, exponent, radix prefix)
  do not come out of the formatter and are not modelled; they are \<open>NaN\<close> here.
\<close>

definition Number_of_string :: "string \<Rightarrow> js_number" where
  "Number_of_string s =
     (if s \<noteq> [] \<and> list_all is_decimal_digit s then Num (int (digits_value 10 s)) else NaN)"

definition minus_one :: "js_number \<Rightarrow> js_number" where
  "minus_one x = (case x of NaN \<Rightarrow> NaN | Num i \<Rightarrow> Num (i - 1))"

record allowed_weeks =
  min_week :: string
  max_week :: string

text \<open>Lines 18 to 31 of \<open>getAllowedWeeks\<close>, from the year and the week number it has read.\<close>

definition week_range :: "int \<Rightarrow> js_number \<Rightarrow> allowed_weeks" where
  "week_range currentYear currentWeek =
     (let prevWeek = minus_one currentWeek;
          prevYear = currentYear;
          rolled = (prevWeek = Num 0);
          prevWeek = (if rolled then Num 52 else prevWeek);
          prevYear = (if rolled then currentYear - 1 else prevYear)
      in \<lparr>min_week = string_of_int prevYear @ ''-W'' @ padStart (string_of_number prevWeek) 2 CHR ''0'',
          max_week = string_of_int currentYear @ ''-W'' @
                       padStart (string_of_number currentWeek) 2 CHR ''0''\<rparr>)"

definition getAllowedWeeks :: "local_date \<Rightarrow> allowed_weeks" where
  "getAllowedWeeks today =
     (let currentYear = getFullYear today;
          currentWeek = Number_of_string (toLocaleDateString_week_year today)
      in week_range currentYear currentWeek)"

text \<open>
  The ISO 8601 week number of a calendar date, for stating what the week of a clock is:
  weeks start on Monday, and week 1 is the week that holds the year's first Thursday.
  \<open>weekday_of_1_January\<close> counts from Sunday as 0, \<open>iso_weekday\<close> from Monday as 1.
\<close>

definition leap_year :: "int \<Rightarrow> bool" where
  "leap_year y = (y mod 4 = 0 \<and> (y mod 100 \<noteq> 0 \<or> y mod 400 = 0))"

definition month_length :: "int \<Rightarrow> nat \<Rightarrow> nat" where
  "month_length y m =
     (if m = 2 then (if leap_year y then 29 else 28)
      else if m = 4 \<or> m = 6 \<or> m = 9 \<or> m = 11 then 30 else 31)"

definition day_of_year :: "local_date \<Rightarrow> nat" where
  "day_of_year d = sum_list (map (month_length (date_year d)) [1..<date_month d]) + date_day d"

definition weekday_of_1_January :: "int \<Rightarrow> int" where
  "weekday_of_1_January y =
     (1 + 5 * ((y - 1) mod 4) + 4 * ((y - 1) mod 100) + 6 * ((y - 1) mod 400)) mod 7"

definition iso_weekday :: "local_date \<Rightarrow> int" where
  "iso_weekday d =
     (let w = (weekday_of_1_January (date_year d) + int (day_of_year d) - 1) mod 7
      in if w = 0 then 7 else w)"

definition weeks_in_year :: "int \<Rightarrow> int" where
  "weeks_in_year y =
     (if weekday_of_1_January y = 4 \<or> (leap_year y \<and> weekday_of_1_January y = 3) then 53 else 52)"

definition iso_week :: "local_date \<Rightarrow> int" where
  "iso_week d =
     (let w = (int (day_of_year d) - iso_weekday d + 10) div 7
      in if w < 1 then weeks_in_year (date_year d - 1)
         else if weeks_in_year (date_year d) < w then 1
         else w)"


section \<open>Records of the three screens\<close>

text \<open>
  The server's records are JSON objects.  The model has one record type with the properties
  the three screens read or write; a property that is missing or \<open>null\<close> is \<open>None\<close>, which is
  all that \<open>??\<close>, \<open>?.\<close> and \<open>||\<close> look at.  The relational operators tell \<open>null\<close> from a
  missing property, so \<open>null_properties\<close> lists the names of the properties that are \<open>null\<close>;
  a name there says something only while the field of that name is \<open>None\<close>.  JSON numbers
  are rationals.  Every other property of an object is carried in the record's extension
  slot, so that \<open>{...emp, password: v}\<close> is the record update.
\<close>

record employee =
  emp_id :: "string option"
  full_name :: "string option"
  department_name :: "string option"
  username :: "string option"
  temp_password :: "string option"
  password :: "string option"
  total_score :: "rat option"
  avg_score :: "rat option"
  score :: "rat option"
  rank :: "rat option"
  evaluation_id :: "string option"
  null_properties :: "string list"

definition blank :: employee where
  "blank = \<lparr>emp_id = None, full_name = None, department_name = None, username = None,
            temp_password = None, password = None, total_score = None, avg_score = None,
            score = None, rank = None, evaluation_id = None, null_properties = []\<rparr>"

section \<open>Array sort\<close>

text \<open>
  \<open>Array.prototype.sort\<close> with a comparator is stable: an element goes before the first
  element it does not compare greater than, and elements that compare equal keep their
  order.  For a comparator that is not a consistent order the language leaves the result to
  the engine; the model is then one admissible result.
\<close>

fun insort_cmp :: "('a \<Rightarrow> 'a \<Rightarrow> rat) \<Rightarrow> 'a \<Rightarrow> 'a list \<Rightarrow> 'a list" where
  "insort_cmp cmp x [] = [x]"
| "insort_cmp cmp x (y # ys) = (if cmp x y \<le> 0 then x # y # ys else y # insort_cmp cmp x ys)"

definition js_sort :: "('a \<Rightarrow> 'a \<Rightarrow> rat) \<Rightarrow> 'a list \<Rightarrow> 'a list" where
  "js_sort cmp xs = foldr (insort_cmp cmp) xs []"

section \<open>Report screen: tie-aware ranking\<close>

text \<open>The score of a record: \<open>emp.total_score ?? emp.avg_score ?? 0\<close>.\<close>

definition resolved_score :: "'a employee_scheme \<Rightarrow> rat" where
  "resolved_score emp =
     (case total_score emp of Some t \<Rightarrow> t
      | None \<Rightarrow> (case avg_score emp of Some a \<Rightarrow> a | None \<Rightarrow> 0))"

text \<open>
  The \<open>forEach\<close> of \<open>generateRankedData\<close>: \<open>index\<close> is the position in the sorted array,
  \<open>lastScore\<close> starts as \<open>null\<close> and \<open>lastRank\<close> as 0; the result lists the pushed records
  in the order they are pushed.
\<close>

fun rank_walk ::
  "nat \<Rightarrow> rat option \<Rightarrow> rat \<Rightarrow> 'a employee_scheme list \<Rightarrow> 'a employee_scheme list" where
  "rank_walk index lastScore lastRank [] = []"
| "rank_walk index lastScore lastRank (emp # rest) =
     (let currentScore = resolved_score emp
      in if Some currentScore = lastScore
         then emp\<lparr>score := Some currentScore, rank := Some lastRank\<rparr> #
              rank_walk (Suc index) lastScore lastRank rest
         else (let lastScore = Some currentScore;
                   lastRank = (case rank emp of Some r \<Rightarrow> r | None \<Rightarrow> of_nat index + 1)
               in emp\<lparr>score := Some currentScore, rank := Some lastRank\<rparr> #
                  rank_walk (Suc index) lastScore lastRank rest))"

definition generateRankedData :: "'a employee_scheme list \<Rightarrow> 'a employee_scheme list" where
  "generateRankedData data =
     (let sorted = js_sort (\<lambda>a b. resolved_score b - resolved_score a) data
      in rank_walk 0 None 0 sorted)"

text \<open>
  Sorting descending by resolved score, as the specification words it: the library's stable
  sort on the negated score.
\<close>

definition sort_descending :: "'a employee_scheme list \<Rightarrow> 'a employee_scheme list" where
  "sort_descending data = sort_key (\<lambda>emp. - resolved_score emp) data"

text \<open>
  The rank the walk gives a record, from \<open>index\<close>, \<open>lastScore\<close> and \<open>lastRank\<close> as they are
  when the record is reached; lemma \<open>rank_walk_Cons\<close> relates it to \<open>rank_walk\<close>.
\<close>

definition walk_rank :: "nat \<Rightarrow> rat option \<Rightarrow> rat \<Rightarrow> 'a employee_scheme \<Rightarrow> rat" where
  "walk_rank index lastScore lastRank emp =
     (if Some (resolved_score emp) = lastScore then lastRank
      else (case rank emp of Some r \<Rightarrow> r | None \<Rightarrow> of_nat index + 1))"

text \<open>A record that has a \<open>total_score\<close> and nothing else.\<close>

definition scored :: "rat \<Rightarrow> employee" where
  "scored x = blank\<lparr>total_score := Some x\<rparr>"

section \<open>Screen state\<close>

text \<open>
  What both list screens hold in \<open>useState\<close>: the loaded records, the sort configuration
  (\<open>key\<close> starts as \<open>null\<close>, \<open>direction\<close> as \<open>asc\<close>) and the loading flag.  \<open>console\<close> is the
  developer console, which the page does not render.
\<close>

record sort_config =
  key :: "string option"
  direction :: string

record screen_state =
  employees :: "employee list"
  sortConfig :: sort_config
  loading :: bool
  console :: "string list"

record perf_state = screen_state +
  selectedWeek :: string
  searchQuery :: string
  page :: js_number
  pageSize :: js_number
  totalPages :: number_value

record alert_state =
  alert_show :: bool
  alert_message :: string
  alert_type :: string

record pagination_state =
  page_next :: "string option"
  page_previous :: "string option"
  currentPage :: js_number
  totalCount :: "rat option"

text \<open>
  The credentials screen also holds the search text, the alert, the row being regenerated,
  the pagination links, the \<open>localStorage\<close> item \<open>loginDetailsPageUrl\<close> and the delay of a
  pending \<open>setTimeout\<close> that hides the alert.
\<close>

record login_state = screen_state +
  search :: string
  alert :: alert_state
  regenLoading :: "string option"
  pagination :: pagination_state
  loginDetailsPageUrl :: "string option"
  alert_timeout :: "nat option"

text \<open>The initial values of the two screens, as their \<open>useState\<close> calls give them.\<close>

definition initial_perf :: perf_state where
  "initial_perf =
     \<lparr>employees = [], sortConfig = \<lparr>key = None, direction = ''asc''\<rparr>, loading = True,
      console = [], selectedWeek = [], searchQuery = [], page = Num 1, pageSize = Num 10,
      totalPages = Finite 1\<rparr>"

definition initial_login :: login_state where
  "initial_login =
     \<lparr>employees = [], sortConfig = \<lparr>key = None, direction = ''asc''\<rparr>, loading = False,
      console = [], search = [],
      alert = \<lparr>alert_show = False, alert_message = [], alert_type = []\<rparr>,
      regenLoading = None,
      pagination = \<lparr>page_next = None, page_previous = None, currentPage = Num 1,
                     totalCount = Some 0\<rparr>,
      loginDetailsPageUrl = None, alert_timeout = None\<rparr>"

section \<open>Search filters\<close>

text \<open>
  \<open>toLowerCase\<close> on code units below 256: the letters A to Z and the capital letters of
  Latin-1 move up by 32.
\<close>

definition lower_char :: "char \<Rightarrow> char" where
  "lower_char c =
     (let n = (of_char c :: nat)
      in if (65 \<le> n \<and> n \<le> 90) \<or> (192 \<le> n \<and> n \<le> 222 \<and> n \<noteq> 215) then char_of (n + 32) else c)"

definition toLowerCase :: "string \<Rightarrow> string" where
  "toLowerCase s = map lower_char s"

datatype js_error = TypeError

text \<open>
  \<open>Array.prototype.filter\<close> with a predicate that may throw: the first throw ends the
  filter.
\<close>

fun filter_js :: "('a \<Rightarrow> js_error + bool) \<Rightarrow> 'a list \<Rightarrow> js_error + 'a list" where
  "filter_js p [] = Inr []"
| "filter_js p (x # xs) =
     (case p x of
        Inl e \<Rightarrow> Inl e
      | Inr b \<Rightarrow> (case filter_js p xs of
                    Inl e \<Rightarrow> Inl e
                  | Inr ys \<Rightarrow> Inr (if b then x # ys else ys)))"

text \<open>
  \<open>field?.toLowerCase().includes(q)\<close>: \<open>undefined\<close>, which is falsy, when the field is
  absent.
\<close>

definition optional_match :: "string option \<Rightarrow> string \<Rightarrow> bool" where
  "optional_match field q =
     (case field of None \<Rightarrow> False | Some v \<Rightarrow> str_includes (toLowerCase v) (toLowerCase q))"

text \<open>
  The predicate of the performance screen.  \<open>emp.emp_id.toLowerCase()\<close> has no \<open>?.\<close>: it is
  evaluated first and throws a \<open>TypeError\<close> when \<open>emp_id\<close> is absent.
\<close>

definition performance_match :: "string \<Rightarrow> 'a employee_scheme \<Rightarrow> js_error + bool" where
  "performance_match q emp =
     (case emp_id emp of
        None \<Rightarrow> Inl TypeError
      | Some i \<Rightarrow>
          Inr (str_includes (toLowerCase i) (toLowerCase q) \<or>
               optional_match (full_name emp) q \<or>
               optional_match (department_name emp) q))"

definition filteredEmployees :: "perf_state \<Rightarrow> js_error + employee list" where
  "filteredEmployees s = filter_js (performance_match (searchQuery s)) (employees s)"

text \<open>The predicate of the credentials screen: every field is read through \<open>?.\<close>.\<close>

definition credentials_match :: "string \<Rightarrow> 'a employee_scheme \<Rightarrow> js_error + bool" where
  "credentials_match q emp =
     Inr (optional_match (full_name emp) q \<or>
          optional_match (emp_id emp) q \<or>
          optional_match (username emp) q)"

definition filteredData :: "login_state \<Rightarrow> js_error + employee list" where
  "filteredData s = filter_js (credentials_match (search s)) (employees s)"

section \<open>Performance screen: column sort\<close>

text \<open>
  \<open>a[key]\<close> for the properties of a record: the value of the field, and \<open>null\<close> or
  \<open>undefined\<close> for a field that is \<open>None\<close>.  The headers of the table sort by \<open>emp_id\<close>,
  \<open>full_name\<close>, \<open>total_score\<close> and \<open>rank\<close>.
\<close>

definition field_value :: "('a \<Rightarrow> js_value) \<Rightarrow> string \<Rightarrow> string list \<Rightarrow> 'a option \<Rightarrow> js_value" where
  "field_value wrap k nulls v =
     (case v of Some x \<Rightarrow> wrap x | None \<Rightarrow> if k \<in> set nulls then Null else Undefined)"

definition property :: "string \<Rightarrow> 'a employee_scheme \<Rightarrow> js_value" where
  "property k emp =
     (if k = ''emp_id'' then field_value Str k (null_properties emp) (emp_id emp)
      else if k = ''full_name'' then field_value Str k (null_properties emp) (full_name emp)
      else if k = ''department_name''
      then field_value Str k (null_properties emp) (department_name emp)
      else if k = ''username'' then field_value Str k (null_properties emp) (username emp)
      else if k = ''temp_password''
      then field_value Str k (null_properties emp) (temp_password emp)
      else if k = ''password'' then field_value Str k (null_properties emp) (password emp)
      else if k = ''total_score''
      then field_value Number k (null_properties emp) (total_score emp)
      else if k = ''avg_score'' then field_value Number k (null_properties emp) (avg_score emp)
      else if k = ''score'' then field_value Number k (null_properties emp) (score emp)
      else if k = ''rank'' then field_value Number k (null_properties emp) (rank emp)
      else if k = ''evaluation_id''
      then field_value Str k (null_properties emp) (evaluation_id emp)
      else if k \<in> set (null_properties emp) then Null
      else Undefined)"

text \<open>
  \<open>x < y\<close>: two strings compare by code units; in every other case both sides are
  converted to numbers, so that \<open>null\<close> counts as 0 and \<open>undefined\<close> compares false with
  everything.
\<close>

fun js_less :: "js_value \<Rightarrow> js_value \<Rightarrow> bool" where
  "js_less (Str a) (Str b) = (a < b)"
| "js_less a b = number_less (to_number a) (to_number b)"

definition js_greater :: "js_value \<Rightarrow> js_value \<Rightarrow> bool" where
  "js_greater a b = js_less b a"

text \<open>The comparator of \<open>handleSort\<close>, and \<open>handleSort\<close> of the performance screen.\<close>

definition sort_comparator :: "string \<Rightarrow> string \<Rightarrow> 'a employee_scheme \<Rightarrow> 'a employee_scheme \<Rightarrow> rat" where
  "sort_comparator k dir a b =
     (if js_less (property k a) (property k b) then (if dir = ''asc'' then - 1 else 1)
      else if js_greater (property k a) (property k b) then (if dir = ''asc'' then 1 else - 1)
      else 0)"

definition handleSort :: "string \<Rightarrow> perf_state \<Rightarrow> perf_state" where
  "handleSort k s =
     (let dir = (if key (sortConfig s) = Some k \<and> direction (sortConfig s) = ''asc''
                 then ''desc'' else ''asc'');
          sorted = js_sort (sort_comparator k dir) (employees s)
      in s\<lparr>employees := sorted, sortConfig := \<lparr>key = Some k, direction = dir\<rparr>\<rparr>)"


definition descending :: "string \<Rightarrow> 'a employee_scheme list \<Rightarrow> bool" where
  "descending k xs = sorted_wrt (\<lambda>a b. \<not> js_less (property k a) (property k b)) xs"





section \<open>Performance screen: the fetcher\<close>

text \<open>
  \<open>axiosInstance.get\<close> either rejects (a network error, or a status outside 2xx) or
  resolves with a response whose \<open>data\<close> is the body.  \<open>None\<close> is a body that is \<open>null\<close> or
  \<open>undefined\<close>, on which reading \<open>backend.results\<close> throws inside the \<open>try\<close>.  Every other
  body is read property by property: \<open>backend.results?.records\<close> and \<open>backend.records\<close> are
  \<open>None\<close> when they are missing or falsy, and a body that is not an object, a string for
  one, has no property at all.
\<close>

datatype 'a axios_result = Rejected | Resolved "'a option"

record summary_body =
  backend_results_records :: "employee list option"
  backend_records :: "employee list option"
  backend_count :: js_value

text \<open>
  \<open>Math.ceil(backend.count / pageSize)\<close>: the count is converted to a number, so a missing
  count gives \<open>NaN\<close> and a \<open>null\<close> count gives 0; a finite value divided by zero is an
  infinity of its sign, or \<open>NaN\<close> when it is 0.
\<close>

definition ceil_div :: "js_value \<Rightarrow> js_number \<Rightarrow> number_value" where
  "ceil_div c n =
     (case n of
        NaN \<Rightarrow> NaN_value
      | Num d \<Rightarrow>
          (case to_number c of
             NaN_value \<Rightarrow> NaN_value
           | Finite q \<Rightarrow>
               if d = 0
               then (if q = 0 then NaN_value else if 0 < q then Plus_Infinity else Minus_Infinity)
               else Finite (of_int \<lceil>q / of_int d\<rceil>)
           | Plus_Infinity \<Rightarrow> if d < 0 then Minus_Infinity else Plus_Infinity
           | Minus_Infinity \<Rightarrow> if d < 0 then Plus_Infinity else Minus_Infinity))"

definition fetchPerformanceData ::
  "(string \<Rightarrow> summary_body axios_result) \<Rightarrow> perf_state \<Rightarrow> perf_state" where
  "fetchPerformanceData axios_get s =
     (let s = s\<lparr>loading := True\<rparr>;
          caught = s\<lparr>console := console s @ [''Error fetching performance data:''],
                     loading := False\<rparr>
      in case axios_get (paginatedUrl (selectedWeek s) (page s) (pageSize s)) of
           Rejected \<Rightarrow> caught
         | Resolved None \<Rightarrow> caught
         | Resolved (Some backend) \<Rightarrow>
             (let finalRecords =
                    (case backend_results_records backend of
                       Some rs \<Rightarrow> rs
                     | None \<Rightarrow> (case backend_records backend of Some rs \<Rightarrow> rs | None \<Rightarrow> []))
              in s\<lparr>console := console s @ [''Extracted Records:''],
                    employees := finalRecords,
                    totalPages := ceil_div (backend_count backend) (pageSize s),
                    loading := False\<rparr>))"

section \<open>Credentials screen: the fetcher and the password regeneration\<close>

text \<open>
  \<open>fetch\<close> rejects on a network error; otherwise there is a response with its \<open>ok\<close> flag,
  and \<open>res.json()\<close> gives the parsed body or rejects (\<open>None\<close>).
\<close>

datatype 'a fetch_result = NetworkError | Response bool "'a option"

record login_body =
  data_detail :: "string option"
  data_results :: "employee list option"
  data_next :: "string option"
  data_previous :: "string option"
  data_count :: "rat option"

record regen_body =
  data_temp_password :: "string option"
  data_password :: "string option"
  data_message :: "string option"
  data_error :: "string option"

definition API_URL :: string where
  "API_URL = ''http://127.0.0.1:8000/api/users/login-details/''"

definition REGENERATE_URL :: string where
  "REGENERATE_URL = ''http://127.0.0.1:8000/api/users/regenerate-password/''"

text \<open>\<open>a || b\<close> on a string that may be absent: an absent or empty \<open>a\<close> gives \<open>b\<close>.\<close>

definition or_else :: "string option \<Rightarrow> string \<Rightarrow> string" where
  "or_else a b = (case a of None \<Rightarrow> b | Some v \<Rightarrow> if v = [] then b else v)"

text \<open>\<open>${empId}\<close> in a template string.\<close>

definition template :: "string option \<Rightarrow> string" where
  "template v = (case v of None \<Rightarrow> ''undefined'' | Some x \<Rightarrow> x)"

text \<open>
  \<open>getPageNumberFromUrl\<close>: the leftmost place where \<open>page=\<close> is followed by decimal digits,
  all the digits there, and \<open>|| 1\<close> on its result.
\<close>

fun page_digits :: "string \<Rightarrow> string option" where
  "page_digits [] = None"
| "page_digits (c # cs) =
     (let ds = takeWhile is_decimal_digit (drop 5 (c # cs))
      in if prefix ''page='' (c # cs) \<and> ds \<noteq> [] then Some ds else page_digits cs)"

definition getPageNumberFromUrl :: "string \<Rightarrow> js_number" where
  "getPageNumberFromUrl url = (case page_digits url of None \<Rightarrow> Num 1 | Some ds \<Rightarrow> parseInt ds)"

definition or_one :: "js_number \<Rightarrow> js_number" where
  "or_one x = (case x of NaN \<Rightarrow> Num 1 | Num i \<Rightarrow> if i = 0 then Num 1 else Num i)"

definition fetchEmployees ::
  "(string \<Rightarrow> login_body fetch_result) \<Rightarrow> string \<Rightarrow> login_state \<Rightarrow> login_state" where
  "fetchEmployees fetch url s =
     (let s = s\<lparr>loading := True\<rparr>;
          caught = s\<lparr>console := console s @ [''Error fetching employees:''],
                     alert := \<lparr>alert_show = True,
                               alert_message = ''Error fetching employee data.'',
                               alert_type = ''danger''\<rparr>,
                     loading := False\<rparr>
      in case fetch url of
           NetworkError \<Rightarrow> caught
         | Response ok None \<Rightarrow> caught
         | Response ok (Some data) \<Rightarrow>
             if \<not> ok then caught
             else (let employeesList =
                         map (\<lambda>emp. emp\<lparr>password := Some (or_else (temp_password emp) [])\<rparr>)
                           (case data_results data of None \<Rightarrow> [] | Some rs \<Rightarrow> rs)
                   in s\<lparr>employees := employeesList,
                         pagination := \<lparr>page_next = data_next data,
                                         page_previous = data_previous data,
                                         currentPage = or_one (getPageNumberFromUrl url),
                                         totalCount = data_count data\<rparr>,
                         loginDetailsPageUrl := Some url,
                         loading := False\<rparr>))"

definition regeneratePassword ::
  "(string \<Rightarrow> regen_body fetch_result) \<Rightarrow> string option \<Rightarrow> login_state \<Rightarrow> login_state" where
  "regeneratePassword post empId s =
     (let s = s\<lparr>regenLoading := empId\<rparr>;
          caught = s\<lparr>console := console s @ [''Error regenerating password:''],
                     alert := \<lparr>alert_show = True,
                               alert_message =
                                 ''Failed to regenerate password for '' @ template empId @ ''.'',
                               alert_type = ''danger''\<rparr>,
                     regenLoading := None\<rparr>
      in case post (REGENERATE_URL @ template empId @ ''/'') of
           NetworkError \<Rightarrow> caught
         | Response ok None \<Rightarrow> caught
         | Response ok (Some data) \<Rightarrow>
             if \<not> ok then caught
             else s\<lparr>employees :=
                      map (\<lambda>emp. if emp_id emp = empId
                                 then emp\<lparr>password :=
                                        Some (or_else (data_temp_password data)
                                               (or_else (data_password data) []))\<rparr>
                                 else emp)
                        (employees s),
                    alert := \<lparr>alert_show = True,
                              alert_message =
                                or_else (data_message data)
                                  (''Password regenerated for '' @ template empId),
                              alert_type = ''success''\<rparr>,
                    alert_timeout := Some 3000,
                    regenLoading := None\<rparr>)"

text \<open>
  A failed fetch: a network error, or a response that is not a success and is thrown.  For
  the performance screen both are the rejected request; for the credentials screen they are
  the network error and the response that is not \<open>ok\<close>.
\<close>

definition axios_failed :: "'a axios_result \<Rightarrow> bool" where
  "axios_failed r = (case r of Rejected \<Rightarrow> True | Resolved body \<Rightarrow> False)"

definition fetch_failed :: "'a fetch_result \<Rightarrow> bool" where
  "fetch_failed r = (case r of NetworkError \<Rightarrow> True | Response ok body \<Rightarrow> \<not> ok)"

text \<open>A string that is absent or empty, which \<open>||\<close> passes over.\<close>

definition falsy :: "string option \<Rightarrow> bool" where
  "falsy a = (case a of None \<Rightarrow> True | Some v \<Rightarrow> v = [])"

section \<open>Properties of the string functions\<close>

declare string_of_nat.simps [simp del]

lemma str_includes_decompose:
  "str_includes s sep \<Longrightarrow> s = before_first s sep @ sep @ after_first s sep"
  by (induction s) (auto simp: prefix_def)

lemma before_first_no_occurrence:
  "\<not> str_includes s sep \<Longrightarrow> before_first s sep = s"
  by (induction s) auto

lemma str_includes_iff_sublist: "str_includes s sub \<longleftrightarrow> sublist sub s"
  by (induction s) (auto simp: sublist_Cons_right)

lemma split_from_found:
  "sep \<noteq> [] \<Longrightarrow> str_includes s sep \<Longrightarrow>
   split_from sep acc s = (acc @ before_first s sep) # split_from sep [] (after_first s sep)"
  by (induction sep acc s rule: split_from.induct) auto

lemma split_from_not_found:
  "sep \<noteq> [] \<Longrightarrow> \<not> str_includes s sep \<Longrightarrow> split_from sep acc s = [acc @ s]"
  by (induction sep acc s rule: split_from.induct) auto

lemma split_from_first:
  "sep \<noteq> [] \<Longrightarrow> hd (split_from sep acc s) = acc @ before_first s sep"
  by (cases "str_includes s sep") (simp_all add: split_from_found split_from_not_found before_first_no_occurrence)

lemma split_from_nonempty: "split_from sep acc s \<noteq> []"
  by (induction sep acc s rule: split_from.induct) auto

lemma marker_not_white_space: "\<not> is_white_space CHR ''-''"
  by (simp add: is_white_space_def)

lemma marker_not_digit: "\<not> is_radix_digit R CHR ''-''" if "R \<le> 36"
  using that by (simp add: is_radix_digit_def digit_val_def)

lemma W_not_digit: "\<not> is_radix_digit 10 CHR ''W''"  "\<not> is_radix_digit 16 CHR ''W''"
  by (simp_all add: is_radix_digit_def digit_val_def)

lemma takeWhile_before_marker:
  "R \<le> 36 \<Longrightarrow> takeWhile (is_radix_digit R) (S @ CHR ''-'' # q) = takeWhile (is_radix_digit R) S"
  by (induction S) (auto simp: marker_not_digit)


lemma parseInt_stages:
  "parseInt s =
     (let S0 = dropWhile is_white_space s
      in parse_unsigned (S0 \<noteq> [] \<and> hd S0 = CHR ''-'') (strip_sign S0))"
  by (simp add: parseInt_def parse_unsigned_def strip_sign_def hex_prefix_def Let_def)

lemma hex_prefix_cut: "hex_prefix (S @ CHR ''-'' # q) = hex_prefix S"
  unfolding hex_prefix_def by (cases S; cases "tl S") auto

lemma hex_prefix_length: "hex_prefix S \<Longrightarrow> 2 \<le> length S"
  unfolding hex_prefix_def by (cases S; cases "tl S") auto

lemma parse_unsigned_cut: "parse_unsigned neg (S @ CHR ''-'' # q) = parse_unsigned neg S"
proof (cases "hex_prefix S")
  case True
  then have "drop 2 (S @ CHR ''-'' # q) = drop 2 S @ CHR ''-'' # q"
    using hex_prefix_length [OF True] by simp
  with True show ?thesis
    by (simp add: parse_unsigned_def hex_prefix_cut takeWhile_before_marker)
next
  case False
  then show ?thesis
    by (simp add: parse_unsigned_def hex_prefix_cut takeWhile_before_marker)
qed

lemma strip_sign_append: "S0 \<noteq> [] \<Longrightarrow> strip_sign (S0 @ r) = strip_sign S0 @ r"
  by (simp add: strip_sign_def)

lemma parse_unsigned_marker: "parse_unsigned neg (CHR ''W'' # q) = NaN"
  by (simp add: parse_unsigned_def hex_prefix_def W_not_digit)

lemma parse_unsigned_Nil: "parse_unsigned neg [] = NaN"
  by (simp add: parse_unsigned_def hex_prefix_def)

lemma parseInt_cut_at_marker: "parseInt (p @ ''-W'' @ q) = parseInt p"
proof (cases "\<forall>c\<in>set p. is_white_space c")
  case True
  then have nil: "dropWhile is_white_space p = []" by simp
  have "parseInt p = NaN"
    by (simp add: parseInt_stages nil strip_sign_def parse_unsigned_Nil)
  moreover from True have cut: "dropWhile is_white_space (p @ ''-W'' @ q) = ''-W'' @ q"
    by (simp add: dropWhile_append marker_not_white_space)
  have "parseInt (p @ ''-W'' @ q) = NaN"
    unfolding parseInt_stages cut by (simp add: strip_sign_def parse_unsigned_marker)
  ultimately show ?thesis by simp
next
  case False
  then have ne: "dropWhile is_white_space p \<noteq> []" by simp
  from False have cut: "dropWhile is_white_space (p @ ''-W'' @ q) = dropWhile is_white_space p @ ''-W'' @ q"
    by (auto simp: dropWhile_append)
  from ne show ?thesis
    unfolding parseInt_stages cut
    by (simp add: Let_def strip_sign_append parse_unsigned_cut)
qed

lemma split_marker_pieces:
  assumes "str_includes s ''-W''"
  shows "element (str_split s ''-W'') 0 = Some (before_first s ''-W'')"
    and "\<exists>piece. element (str_split s ''-W'') 1 = Some piece \<and> parseInt piece = parseInt (after_first s ''-W'')"
proof -
  let ?r = "after_first s ''-W''"
  have sp: "str_split s ''-W'' = before_first s ''-W'' # split_from ''-W'' [] ?r"
    using assms by (simp add: str_split_def split_from_found)
  show "element (str_split s ''-W'') 0 = Some (before_first s ''-W'')"
    by (simp add: sp element_def)
  have one: "element (str_split s ''-W'') 1 = Some (hd (split_from ''-W'' [] ?r))"
    using split_from_nonempty [of "''-W''" "[]" ?r]
    by (simp add: sp element_def hd_conv_nth)
  have "parseInt (before_first ?r ''-W'') = parseInt ?r"
  proof (cases "str_includes ?r ''-W''")
    case True
    from str_includes_decompose [OF True]
    have "parseInt ?r = parseInt (before_first ?r ''-W'' @ ''-W'' @ after_first ?r ''-W'')"
      by simp
    then show ?thesis by (simp only: parseInt_cut_at_marker)
  next
    case False
    then show ?thesis by (simp add: before_first_no_occurrence)
  qed
  with one show "\<exists>piece. element (str_split s ''-W'') 1 = Some piece \<and> parseInt piece = parseInt ?r"
    by (simp add: split_from_first)
qed

lemma parseWeek_marker:
  assumes "str_includes s ''-W''"
  shows "parseWeek s = \<lparr>year = Some (parseInt (before_first s ''-W'')),
                        week = Some (parseInt (after_first s ''-W''))\<rparr>"
proof -
  from assms have "s \<noteq> []" by auto
  with assms split_marker_pieces [OF assms] show ?thesis
    by (auto simp: parseWeek_def Let_def parseInt_arg_def)
qed


lemma well_formed_week_marker: "well_formed_week s \<Longrightarrow> str_includes s ''-W''"
proof -
  assume wf: "well_formed_week s"
  have "s = take 4 s @ drop 4 s"
    by (rule append_take_drop_id [symmetric])
  also have "drop 4 s = take 2 (drop 4 s) @ drop 2 (drop 4 s)"
    by (rule append_take_drop_id [symmetric])
  also from wf have "take 2 (drop 4 s) = ''-W''"
    by (simp add: well_formed_week_def)
  finally have "sublist ''-W'' s"
    by (metis sublist_appendI)
  then show ?thesis by (simp add: str_includes_iff_sublist)
qed

section \<open>Properties of the week parser\<close>

text \<open>
  Claim C9.  For every string that contains \<open>-W\<close>, \<open>parseWeek\<close> returns the \<open>parseInt\<close> of the
  part before the first \<open>-W\<close> as the year and the \<open>parseInt\<close> of the part after it as the week,
  and this is never the result with two nulls; a string such as \<open>abc-Wxy\<close> gives \<open>NaN\<close>
  components.  The result with two nulls is returned exactly when the string is empty or
  does not contain \<open>-W\<close>.
\<close>

theorem parseWeek_null_iff:
  "(str_includes s ''-W'' \<longrightarrow>
      parseWeek s = \<lparr>year = Some (parseInt (before_first s ''-W'')),
                     week = Some (parseInt (after_first s ''-W''))\<rparr> \<and>
      parseWeek s \<noteq> \<lparr>year = None, week = None\<rparr>) \<and>
   (parseWeek s = \<lparr>year = None, week = None\<rparr> \<longleftrightarrow> s = [] \<or> \<not> str_includes s ''-W'')"
proof (cases "str_includes s ''-W''")
  case True
  then have "s \<noteq> []" by auto
  with True parseWeek_marker [OF True] show ?thesis by simp
next
  case False
  then show ?thesis by (simp add: parseWeek_def)
qed

theorem parseWeek_null_iff_witness:
  "str_includes ''abc-Wxy'' ''-W'' \<and> parseWeek ''abc-Wxy'' = \<lparr>year = Some NaN, week = Some NaN\<rparr>"
  using parseWeek_null_iff [of "''abc-Wxy''"]
  by (simp add: parseInt_def is_white_space_def is_radix_digit_def digit_val_def)

text \<open>
  Claim C3, as the code has it.  \<open>parseWeek\<close> maps \<open>2025-W46\<close> to year 2025 and week 46 and
  \<open>garbage\<close> to two nulls; every string that is empty or lacks the marker \<open>-W\<close> is malformed
  and is mapped to two nulls.  The function is total on strings: no input makes it throw.
\<close>

theorem parseWeek_examples:
  "parseWeek ''2025-W46'' = \<lparr>year = Some (Num 2025), week = Some (Num 46)\<rparr> \<and>
   parseWeek ''garbage'' = \<lparr>year = None, week = None\<rparr> \<and>
   (s = [] \<or> \<not> str_includes s ''-W'' \<longrightarrow>
      \<not> well_formed_week s \<and> parseWeek s = \<lparr>year = None, week = None\<rparr>)"
proof -
  have "parseWeek ''2025-W46'' = \<lparr>year = Some (Num 2025), week = Some (Num 46)\<rparr>"
    by (simp add: parseWeek_def str_split_def element_def parseInt_arg_def parseInt_def
        is_white_space_def is_radix_digit_def digit_val_def digits_value_def)
  moreover have "parseWeek ''garbage'' = \<lparr>year = None, week = None\<rparr>"
    by (simp add: parseWeek_def)
  moreover have "s = [] \<or> \<not> str_includes s ''-W'' \<longrightarrow>
      \<not> well_formed_week s \<and> parseWeek s = \<lparr>year = None, week = None\<rparr>"
    using well_formed_week_marker [of s] by (auto simp: parseWeek_def well_formed_week_def)
  ultimately show ?thesis by blast
qed

theorem parseWeek_examples_witness:
  "\<not> str_includes ''2025W46'' ''-W'' \<and> \<not> well_formed_week ''2025W46'' \<and>
   parseWeek ''2025W46'' = \<lparr>year = None, week = None\<rparr>"
  using parseWeek_examples [of "''2025W46''"] by simp

text \<open>
  The claim as the specification words it, that every malformed input gives two nulls,
  fails: \<open>abc-Wxy\<close> is malformed, passes the guard and gives \<open>NaN\<close> components.
\<close>

theorem parseWeek_malformed_counterexample:
  "\<not> well_formed_week ''abc-Wxy'' \<and> parseWeek ''abc-Wxy'' \<noteq> \<lparr>year = None, week = None\<rparr>"
  by (simp add: well_formed_week_def parseWeek_def Let_def)

section \<open>Properties of the request URL\<close>

lemma str_includes_middle: "str_includes (a @ sub @ b) sub"
  by (simp add: str_includes_iff_sublist)

lemma summary_url_no_query: "\<not> str_includes summary_url ''?''"
  by (simp add: summary_url_def)

lemma str_includes_query: "str_includes (a @ CHR ''?'' # rest) ''?''"
  using str_includes_middle [of a "''?''" rest] by simp

lemma paginatedUrl_cases:
  "paginatedUrl w p ps =
     (if str_includes w ''-W'' \<and> parseInt (before_first w ''-W'') \<noteq> NaN \<and>
         parseInt (after_first w ''-W'') \<noteq> NaN
      then summary_url @ ''?week='' @ string_of_number (parseInt (after_first w ''-W'')) @
             ''&year='' @ string_of_number (parseInt (before_first w ''-W'')) @
             ''&page='' @ string_of_number p @ ''&page_size='' @ string_of_number ps
      else summary_url @ ''?page='' @ string_of_number p @ ''&page_size='' @ string_of_number ps)"
proof (cases "str_includes w ''-W''")
  case True
  then have ne: "w \<noteq> []" by auto
  from split_marker_pieces [OF True] obtain piece where
    y: "element (str_split w ''-W'') 0 = Some (before_first w ''-W'')" and
    k: "element (str_split w ''-W'') 1 = Some piece" and
    pk: "parseInt piece = parseInt (after_first w ''-W'')"
    by blast
  show ?thesis
  proof (cases "parseInt (before_first w ''-W'') \<noteq> NaN \<and> parseInt (after_first w ''-W'') \<noteq> NaN")
    case True
    with \<open>str_includes w ''-W''\<close> ne y k pk show ?thesis
      unfolding paginatedUrl_def Let_def
      by (simp add: parseInt_arg_def isNaN_def str_includes_query summary_url_no_query)
  next
    case False
    with \<open>str_includes w ''-W''\<close> ne y k pk show ?thesis
      unfolding paginatedUrl_def Let_def
      by (auto simp add: parseInt_arg_def isNaN_def summary_url_no_query)
  qed
next
  case False
  then show ?thesis
    unfolding paginatedUrl_def Let_def by (simp add: summary_url_no_query)
qed

text \<open>
  Claim C10.  The performance fetcher appends the \<open>week\<close> and \<open>year\<close> parameters exactly when
  the selected week contains \<open>-W\<close> and both the year part and the week part parse to
  integers; for every other selected week the request carries no week or year filter.  The
  \<open>page\<close> and \<open>page_size\<close> parameters are appended in both cases, and building the URL
  never fails.
\<close>

theorem paginatedUrl_filters:
  "paginatedUrl w p ps =
     (if str_includes w ''-W'' \<and> parseInt (before_first w ''-W'') \<noteq> NaN \<and>
         parseInt (after_first w ''-W'') \<noteq> NaN
      then summary_url @ ''?week='' @ string_of_number (parseInt (after_first w ''-W'')) @
             ''&year='' @ string_of_number (parseInt (before_first w ''-W'')) @
             ''&page='' @ string_of_number p @ ''&page_size='' @ string_of_number ps
      else summary_url @ ''?page='' @ string_of_number p @ ''&page_size='' @ string_of_number ps) \<and>
   (prefix (summary_url @ ''?week='') (paginatedUrl w p ps) \<longleftrightarrow>
      str_includes w ''-W'' \<and> parseInt (before_first w ''-W'') \<noteq> NaN \<and>
      parseInt (after_first w ''-W'') \<noteq> NaN)"
  by (simp add: paginatedUrl_cases)

theorem paginatedUrl_filters_witness:
  "paginatedUrl ''2025-W46'' (Num 3) (Num 10) =
     ''http://127.0.0.1:8000/api/performance/summary/?week=46&year=2025&page=3&page_size=10'' \<and>
   paginatedUrl ''2025-Wxy'' (Num 3) (Num 10) =
     ''http://127.0.0.1:8000/api/performance/summary/?page=3&page_size=10'' \<and>
   paginatedUrl '''' (Num 1) (Num 10) =
     ''http://127.0.0.1:8000/api/performance/summary/?page=1&page_size=10''"
  using paginatedUrl_filters [of "''2025-W46''" "Num 3" "Num 10"]
    paginatedUrl_filters [of "''2025-Wxy''" "Num 3" "Num 10"]
    paginatedUrl_filters [of "''''" "Num 1" "Num 10"]
  by (simp add: summary_url_def parseInt_def is_white_space_def is_radix_digit_def digit_val_def
      digits_value_def string_of_number_def string_of_int_def string_of_nat.simps)

section \<open>Properties of the ranking\<close>

lemma rank_walk_Cons:
  "rank_walk k ls lr (emp # rest) =
     emp\<lparr>score := Some (resolved_score emp), rank := Some (walk_rank k ls lr emp)\<rparr> #
     rank_walk (Suc k) (Some (resolved_score emp)) (walk_rank k ls lr emp) rest"
  by (simp add: walk_rank_def Let_def)

lemma rank_walk_length: "length (rank_walk k ls lr xs) = length xs"
  by (induction xs arbitrary: k ls lr) (simp_all add: Let_def)

lemma rank_walk_first:
  "xs \<noteq> [] \<Longrightarrow> rank (rank_walk k ls lr xs ! 0) = Some (walk_rank k ls lr (xs ! 0))"
  by (cases xs) (simp_all add: rank_walk_Cons del: rank_walk.simps)

lemma rank_walk_fields:
  "i < length xs \<Longrightarrow>
   rank_walk k ls lr xs ! i =
     (xs ! i)\<lparr>score := Some (resolved_score (xs ! i)), rank := rank (rank_walk k ls lr xs ! i)\<rparr>"
proof (induction xs arbitrary: k ls lr i)
  case Nil
  then show ?case by simp
next
  case (Cons emp rest)
  show ?case
  proof (cases i)
    case 0
    then show ?thesis by (simp add: rank_walk_Cons del: rank_walk.simps)
  next
    case (Suc j)
    with Cons.prems have "j < length rest" by simp
    from Cons.IH [OF this] Suc show ?thesis
      by (simp add: rank_walk_Cons del: rank_walk.simps)
  qed
qed

lemma rank_walk_next:
  "Suc i < length xs \<Longrightarrow>
   rank (rank_walk k ls lr xs ! Suc i) =
     (if resolved_score (xs ! Suc i) = resolved_score (xs ! i)
      then rank (rank_walk k ls lr xs ! i)
      else Some (case rank (xs ! Suc i) of Some r \<Rightarrow> r | None \<Rightarrow> of_nat (k + Suc i) + 1))"
proof (induction xs arbitrary: k ls lr i)
  case Nil
  then show ?case by simp
next
  case (Cons emp rest)
  then have ne: "rest \<noteq> []" by auto
  show ?case
  proof (cases i)
    case 0
    from ne show ?thesis
      unfolding 0
      by (simp add: rank_walk_Cons rank_walk_first walk_rank_def split: option.split
          del: rank_walk.simps)
  next
    case (Suc j)
    with Cons.prems have "Suc j < length rest" by simp
    from Cons.IH [OF this] show ?thesis
      unfolding Suc
      by (simp add: rank_walk_Cons split: option.split del: rank_walk.simps)
  qed
qed

lemma insort_cmp_insort_key:
  "\<forall>y\<in>set ys. (cmp x y \<le> 0) = (f x \<le> f y) \<Longrightarrow> insort_cmp cmp x ys = insort_key f x ys"
  by (induction ys) auto

lemma js_sort_sort_key:
  "\<forall>x\<in>set xs. \<forall>y\<in>set xs. (cmp x y \<le> 0) = (f x \<le> f y) \<Longrightarrow> js_sort cmp xs = sort_key f xs"
proof (induction xs)
  case Nil
  then show ?case by (simp add: js_sort_def)
next
  case (Cons x xs)
  then have "js_sort cmp xs = sort_key f xs" by simp
  moreover from Cons.prems have "\<forall>y\<in>set (sort_key f xs). (cmp x y \<le> 0) = (f x \<le> f y)"
    by simp
  ultimately show ?case
    using insort_cmp_insort_key [of "sort_key f xs" cmp x f] by (simp add: js_sort_def)
qed

lemma generateRankedData_sorted:
  "generateRankedData data = rank_walk 0 None 0 (sort_descending data)"
proof -
  have "js_sort (\<lambda>a b. resolved_score b - resolved_score a) data =
        sort_key (\<lambda>emp. - resolved_score emp) data"
    by (rule js_sort_sort_key) simp
  then show ?thesis by (simp add: generateRankedData_def sort_descending_def)
qed

lemma sort_descending_sorted:
  "sorted_wrt (\<lambda>a b. resolved_score b \<le> resolved_score a) (sort_descending data)"
proof -
  have "sorted (map (\<lambda>emp. - resolved_score emp) (sort_descending data))"
    by (simp add: sort_descending_def)
  then show ?thesis by (simp add: sorted_map)
qed

lemma sort_descending_length: "length (sort_descending data) = length data"
  by (simp add: sort_descending_def)

lemma sort_descending_set: "set (sort_descending data) = set data"
  by (simp add: sort_descending_def)

lemma generateRankedData_rank:
  assumes "i < length data"
  shows "rank (generateRankedData data ! i) =
     (if 0 < i \<and> resolved_score (sort_descending data ! i) = resolved_score (sort_descending data ! (i - 1))
      then rank (generateRankedData data ! (i - 1))
      else Some (case rank (sort_descending data ! i) of Some r \<Rightarrow> r | None \<Rightarrow> of_nat i + 1))"
proof (cases i)
  case 0
  from assms have "sort_descending data \<noteq> []"
    using sort_descending_length [of data] by auto
  then show ?thesis
    unfolding 0 generateRankedData_sorted
    by (simp add: rank_walk_first walk_rank_def)
next
  case (Suc j)
  with assms have "Suc j < length (sort_descending data)"
    by (simp add: sort_descending_length)
  then show ?thesis
    unfolding Suc generateRankedData_sorted
    by (simp add: rank_walk_next split: option.split)
qed

text \<open>
  Claim C1.  For every input in which no record has a server \<open>rank\<close>, with scores resolved
  as \<open>total_score\<close>, then \<open>avg_score\<close>, then 0: the result of \<open>generateRankedData\<close> lists the
  records sorted descending by resolved score, each with its resolved score; a record whose
  score equals the score of the record before it gets that record's rank, and every other
  record gets its 1-based position.  The input scores 90, 90, 80, 70, 70 give the ranks
  1, 1, 3, 4, 4.
\<close>

theorem generateRankedData_no_server_rank:
  assumes "\<forall>emp\<in>set data. rank emp = None"
  shows "mset (sort_descending data) = mset data \<and>
     sorted_wrt (\<lambda>a b. resolved_score b \<le> resolved_score a) (sort_descending data) \<and>
     length (generateRankedData data) = length data \<and>
     (\<forall>i<length data.
        generateRankedData data ! i =
          (sort_descending data ! i)
            \<lparr>score := Some (resolved_score (sort_descending data ! i)),
             rank := rank (generateRankedData data ! i)\<rparr> \<and>
        rank (generateRankedData data ! i) =
          (if 0 < i \<and> resolved_score (sort_descending data ! i) =
                        resolved_score (sort_descending data ! (i - 1))
           then rank (generateRankedData data ! (i - 1))
           else Some (of_nat i + 1))) \<and>
     map rank (generateRankedData [scored 90, scored 90, scored 80, scored 70, scored 70]) =
       [Some 1, Some 1, Some 3, Some 4, Some 4]"
proof -
  have perm: "mset (sort_descending data) = mset data"
    by (simp add: sort_descending_def)
  have len: "length (generateRankedData data) = length data"
    by (simp add: generateRankedData_sorted rank_walk_length sort_descending_length)
  have rows: "generateRankedData data ! i =
          (sort_descending data ! i)
            \<lparr>score := Some (resolved_score (sort_descending data ! i)),
             rank := rank (generateRankedData data ! i)\<rparr> \<and>
        rank (generateRankedData data ! i) =
          (if 0 < i \<and> resolved_score (sort_descending data ! i) =
                        resolved_score (sort_descending data ! (i - 1))
           then rank (generateRankedData data ! (i - 1))
           else Some (of_nat i + 1))" if i: "i < length data" for i
  proof -
    from i have "sort_descending data ! i \<in> set data"
      using sort_descending_set [of data] sort_descending_length [of data] nth_mem by metis
    with assms have none: "rank (sort_descending data ! i) = None" by blast
    have
      "rank (generateRankedData data ! i) =
          (if 0 < i \<and> resolved_score (sort_descending data ! i) =
                        resolved_score (sort_descending data ! (i - 1))
           then rank (generateRankedData data ! (i - 1))
           else Some (of_nat i + 1))"
      using generateRankedData_rank [OF i] none by (auto split: option.splits)
    moreover from i have "generateRankedData data ! i =
          (sort_descending data ! i)
            \<lparr>score := Some (resolved_score (sort_descending data ! i)),
             rank := rank (generateRankedData data ! i)\<rparr>"
      unfolding generateRankedData_sorted
      by (intro rank_walk_fields) (simp add: sort_descending_length)
    ultimately show ?thesis by blast
  qed
  have example: "map rank (generateRankedData [scored 90, scored 90, scored 80, scored 70, scored 70]) =
       [Some 1, Some 1, Some 3, Some 4, Some 4]"
    by (simp add: generateRankedData_def js_sort_def resolved_score_def scored_def blank_def Let_def)
  from perm sort_descending_sorted len rows example show ?thesis by blast
qed

theorem generateRankedData_no_server_rank_witness:
  "map rank [scored 70, blank\<lparr>avg_score := Some 90\<rparr>, scored 80, scored 90, blank] =
     [None, None, None, None, None] \<and>
   map rank (generateRankedData [scored 70, blank\<lparr>avg_score := Some 90\<rparr>, scored 80, scored 90, blank]) =
     [Some 1, Some 1, Some 3, Some 4, Some 5] \<and>
   map score (generateRankedData [scored 70, blank\<lparr>avg_score := Some 90\<rparr>, scored 80, scored 90, blank]) =
     [Some 90, Some 90, Some 80, Some 70, Some 0]"
  using generateRankedData_no_server_rank [of "[scored 70, blank\<lparr>avg_score := Some 90\<rparr>, scored 80, scored 90, blank]"]
  by (simp add: generateRankedData_def js_sort_def resolved_score_def scored_def blank_def Let_def)

text \<open>
  Claim C6.  The result lists the records sorted descending by resolved score.  Every record
  that is not tied with the record before it in the sorted sequence (the first record, or
  one whose resolved score differs from its predecessor's) is output as that same record
  with its resolved score and, as rank, the server's \<open>rank\<close> as it is when it has one,
  whatever its position; it gets its 1-based position only when it has none.
\<close>

theorem generateRankedData_server_rank:
  assumes "i < length data"
    and "i = 0 \<or> resolved_score (sort_descending data ! i) \<noteq> resolved_score (sort_descending data ! (i - 1))"
  shows "mset (sort_descending data) = mset data \<and>
     sorted_wrt (\<lambda>a b. resolved_score b \<le> resolved_score a) (sort_descending data) \<and>
     length (generateRankedData data) = length data \<and>
     generateRankedData data ! i =
       (sort_descending data ! i)
         \<lparr>score := Some (resolved_score (sort_descending data ! i)),
          rank := (case rank (sort_descending data ! i) of
                     Some r \<Rightarrow> Some r
                   | None \<Rightarrow> Some (of_nat i + 1))\<rparr> \<and>
     rank (generateRankedData data ! i) =
       (case rank (sort_descending data ! i) of Some r \<Rightarrow> Some r | None \<Rightarrow> Some (of_nat i + 1))"
proof -
  have perm: "mset (sort_descending data) = mset data"
    by (simp add: sort_descending_def)
  have len: "length (generateRankedData data) = length data"
    by (simp add: generateRankedData_sorted rank_walk_length sort_descending_length)
  have rk: "rank (generateRankedData data ! i) =
       (case rank (sort_descending data ! i) of Some r \<Rightarrow> Some r | None \<Rightarrow> Some (of_nat i + 1))"
    using generateRankedData_rank [OF assms(1)] assms(2)
    by (auto split: option.split)
  from assms(1) have "generateRankedData data ! i =
       (sort_descending data ! i)
         \<lparr>score := Some (resolved_score (sort_descending data ! i)),
          rank := rank (generateRankedData data ! i)\<rparr>"
    unfolding generateRankedData_sorted
    by (intro rank_walk_fields) (simp add: sort_descending_length)
  then have row: "generateRankedData data ! i =
       (sort_descending data ! i)
         \<lparr>score := Some (resolved_score (sort_descending data ! i)),
          rank := (case rank (sort_descending data ! i) of
                     Some r \<Rightarrow> Some r
                   | None \<Rightarrow> Some (of_nat i + 1))\<rparr>"
    by (simp only: rk)
  from perm sort_descending_sorted len row rk show ?thesis by blast
qed

theorem generateRankedData_server_rank_witness:
  "(3::nat) < length [(scored 30)\<lparr>emp_id := Some ''E30'', rank := Some 1\<rparr>,
                      (scored 50)\<lparr>emp_id := Some ''E50'', rank := Some 7\<rparr>,
                      (scored 40)\<lparr>emp_id := Some ''E40a''\<rparr>,
                      (scored 40)\<lparr>emp_id := Some ''E40b'', rank := Some 9\<rparr>] \<and>
   sort_descending [(scored 30)\<lparr>emp_id := Some ''E30'', rank := Some 1\<rparr>,
                    (scored 50)\<lparr>emp_id := Some ''E50'', rank := Some 7\<rparr>,
                    (scored 40)\<lparr>emp_id := Some ''E40a''\<rparr>,
                    (scored 40)\<lparr>emp_id := Some ''E40b'', rank := Some 9\<rparr>] =
     [(scored 50)\<lparr>emp_id := Some ''E50'', rank := Some 7\<rparr>,
      (scored 40)\<lparr>emp_id := Some ''E40a''\<rparr>,
      (scored 40)\<lparr>emp_id := Some ''E40b'', rank := Some 9\<rparr>,
      (scored 30)\<lparr>emp_id := Some ''E30'', rank := Some 1\<rparr>] \<and>
   generateRankedData [(scored 30)\<lparr>emp_id := Some ''E30'', rank := Some 1\<rparr>,
                       (scored 50)\<lparr>emp_id := Some ''E50'', rank := Some 7\<rparr>,
                       (scored 40)\<lparr>emp_id := Some ''E40a''\<rparr>,
                       (scored 40)\<lparr>emp_id := Some ''E40b'', rank := Some 9\<rparr>] =
     [(scored 50)\<lparr>emp_id := Some ''E50'', score := Some 50, rank := Some 7\<rparr>,
      (scored 40)\<lparr>emp_id := Some ''E40a'', score := Some 40, rank := Some 2\<rparr>,
      (scored 40)\<lparr>emp_id := Some ''E40b'', score := Some 40, rank := Some 2\<rparr>,
      (scored 30)\<lparr>emp_id := Some ''E30'', score := Some 30, rank := Some 1\<rparr>]"
  using generateRankedData_server_rank [of 3 "[(scored 30)\<lparr>emp_id := Some ''E30'', rank := Some 1\<rparr>,
                       (scored 50)\<lparr>emp_id := Some ''E50'', rank := Some 7\<rparr>,
                       (scored 40)\<lparr>emp_id := Some ''E40a''\<rparr>,
                       (scored 40)\<lparr>emp_id := Some ''E40b'', rank := Some 9\<rparr>]"]
  by (simp add: generateRankedData_def js_sort_def sort_descending_def sort_key_def
      resolved_score_def scored_def blank_def Let_def)

section \<open>Properties of the selectable week range\<close>

lemma digit_table:
  assumes "k < 10"
  shows "is_decimal_digit (''0123456789'' ! k)" and "digit_val (''0123456789'' ! k) = k"
proof -
  from assms have "k = 0 \<or> k = 1 \<or> k = 2 \<or> k = 3 \<or> k = 4 \<or> k = 5 \<or> k = 6 \<or> k = 7 \<or> k = 8 \<or> k = 9"
    by arith
  then show "is_decimal_digit (''0123456789'' ! k)" and "digit_val (''0123456789'' ! k) = k"
    by (auto simp: is_decimal_digit_def digit_val_def)
qed

lemma digits_value_snoc: "digits_value R (Z @ [c]) = digits_value R Z * R + digit_val c"
  by (simp add: digits_value_def)

lemma string_of_nat_digits:
  "list_all is_decimal_digit (string_of_nat n) \<and> string_of_nat n \<noteq> [] \<and>
   digits_value 10 (string_of_nat n) = n"
proof (induction n rule: string_of_nat.induct)
  case (1 n)
  show ?case
  proof (cases "n < 10")
    case True
    then show ?thesis
      using digit_table [of n]
      by (simp add: string_of_nat.simps [of n] digits_value_def)
  next
    case False
    with 1 have IH: "list_all is_decimal_digit (string_of_nat (n div 10))"
      "digits_value 10 (string_of_nat (n div 10)) = n div 10"
      by simp_all
    have "n mod 10 < 10" by simp
    from digit_table [OF this] IH False show ?thesis
      by (simp add: string_of_nat.simps [of n] digits_value_snoc)
  qed
qed

lemma Number_of_string_year:
  "0 \<le> y \<Longrightarrow> Number_of_string (string_of_int y) = Num y"
  using string_of_nat_digits [of "nat y"]
  by (simp add: Number_of_string_def string_of_int_def)

text \<open>
  On a non-empty run of decimal digits, which is what the formatter returns, \<open>Number\<close> as
  \<open>getAllowedWeeks\<close> uses it is the full conversion of a string to a number.
\<close>

lemma decimal_digit_radix: "is_decimal_digit c = is_radix_digit 10 c"
  by (auto simp: is_decimal_digit_def is_radix_digit_def digit_val_def Let_def)

lemma StringToNumber_digits:
  assumes "s \<noteq> []" and "list_all is_decimal_digit s"
  shows "StringToNumber s = Finite (of_nat (digits_value 10 s))"
    and "Number_of_string s = Num (int (digits_value 10 s))"
proof -
  from assms(2) have digits: "\<forall>c\<in>set s. is_radix_digit 10 c"
    by (simp add: list_all_iff decimal_digit_radix)
  have ws: "\<not> is_white_space c" if "is_radix_digit 10 c" for c
    using that by (auto simp: is_radix_digit_def digit_val_def is_white_space_def Let_def split: if_splits)
  from assms(1) digits ws have ends: "\<not> is_white_space (hd s)" "\<not> is_white_space (last s)"
    by simp_all
  then have "dropWhile is_white_space s = s"
    by (simp add: dropWhile_eq_self_iff)
  moreover from ends have "dropWhile is_white_space (rev s) = rev s"
    by (simp add: dropWhile_eq_self_iff hd_rev)
  ultimately have trim: "trim s = s"
    by (simp add: trim_def)
  from assms(1) obtain c cs where s: "s = c # cs" by (cases s) auto
  have no_prefix: "\<not> prefix [a, b] s" if "\<not> is_radix_digit 10 b" for a b
    using that digits s by (cases cs) auto
  have letters: "\<not> is_radix_digit 10 CHR ''x''" "\<not> is_radix_digit 10 CHR ''X''"
    "\<not> is_radix_digit 10 CHR ''o''" "\<not> is_radix_digit 10 CHR ''O''"
    "\<not> is_radix_digit 10 CHR ''b''" "\<not> is_radix_digit 10 CHR ''B''"
    "\<not> is_radix_digit 10 CHR ''+''" "\<not> is_radix_digit 10 CHR ''-''"
    "\<not> is_radix_digit 10 CHR ''I''"
    by (simp_all add: is_radix_digit_def digit_val_def)
  from digits s letters have sign: "hd s \<noteq> CHR ''+''" "hd s \<noteq> CHR ''-''" "s \<noteq> ''Infinity''"
    by auto
  from digits have tw: "takeWhile (is_radix_digit 10) s = s" "dropWhile (is_radix_digit 10) s = []"
    by simp_all
  from assms(1) have lit: "decimal_literal s = Some (of_nat (digits_value 10 s))"
    by (simp add: decimal_literal_def tw)
  show "StringToNumber s = Finite (of_nat (digits_value 10 s))"
    using assms(1) sign
    by (simp add: StringToNumber_def trim no_prefix letters lit)
  show "Number_of_string s = Num (int (digits_value 10 s))"
    using assms by (simp add: Number_of_string_def)
qed

lemma getAllowedWeeks_year:
  "1 \<le> date_year today \<Longrightarrow>
   getAllowedWeeks today = week_range (date_year today) (Num (date_year today))"
  by (simp add: getAllowedWeeks_def getFullYear_def toLocaleDateString_week_year_def
      Number_of_string_year)

lemma week_range_later:
  "2 \<le> W \<Longrightarrow>
   week_range Y (Num W) =
     \<lparr>min_week = string_of_int Y @ ''-W'' @ padStart (string_of_int (W - 1)) 2 CHR ''0'',
      max_week = string_of_int Y @ ''-W'' @ padStart (string_of_int W) 2 CHR ''0''\<rparr>"
  by (simp add: week_range_def minus_one_def string_of_number_def)

lemma padded_52_01:
  "padStart (string_of_int 52) 2 CHR ''0'' = ''52''" "padStart (string_of_int 1) 2 CHR ''0'' = ''01''"
  by (simp_all add: string_of_int_def padStart_def string_of_nat.simps)

lemma week_range_first:
  "week_range Y (Num 1) =
     \<lparr>min_week = string_of_int (Y - 1) @ ''-W52'', max_week = string_of_int Y @ ''-W01''\<rparr>"
  by (simp add: week_range_def minus_one_def string_of_number_def padded_52_01)

text \<open>
  Claim C2.  With the clock in ISO week \<open>W\<close> of year \<open>Y\<close>, the claim expects the week \<open>W - 1\<close>
  of \<open>Y\<close> as \<open>min\<close> and the week \<open>W\<close> of \<open>Y\<close> as \<open>max\<close>.  Lemmas \<open>week_range_later\<close> and
  \<open>week_range_first\<close> show that lines 18 to 31 compute this from a week number, but lemma
  \<open>getAllowedWeeks_year\<close> shows that the week number the function reads is the year.  On
  12 November 2025, in ISO week 46, the function returns weeks 2024 and 2025 of 2025, where
  the claim has weeks 45 and 46.
\<close>

theorem getAllowedWeeks_week_is_year:
  "iso_week \<lparr>date_year = 2025, date_month = 11, date_day = 12\<rparr> = 46 \<and>
   getAllowedWeeks \<lparr>date_year = 2025, date_month = 11, date_day = 12\<rparr> =
     \<lparr>min_week = ''2025-W2024'', max_week = ''2025-W2025''\<rparr> \<and>
   week_range 2025 (Num 46) = \<lparr>min_week = ''2025-W45'', max_week = ''2025-W46''\<rparr>"
proof -
  have "iso_week \<lparr>date_year = 2025, date_month = 11, date_day = 12\<rparr> = 46"
    by code_simp
  moreover have "getAllowedWeeks \<lparr>date_year = 2025, date_month = 11, date_day = 12\<rparr> =
     \<lparr>min_week = ''2025-W2024'', max_week = ''2025-W2025''\<rparr>"
    by (simp add: getAllowedWeeks_year week_range_def minus_one_def string_of_number_def
        string_of_int_def padStart_def string_of_nat.simps)
  moreover have "week_range 2025 (Num 46) = \<lparr>min_week = ''2025-W45'', max_week = ''2025-W46''\<rparr>"
    by (simp add: week_range_def minus_one_def string_of_number_def
        string_of_int_def padStart_def string_of_nat.simps)
  ultimately show ?thesis by blast
qed

section \<open>Properties of the search filters\<close>

lemma filter_js_total:
  "\<forall>x\<in>set xs. \<exists>b. p x = Inr b \<Longrightarrow>
   filter_js p xs = Inr (filter (\<lambda>x. p x = Inr True) xs)"
proof (induction xs)
  case Nil
  then show ?case by simp
next
  case (Cons x xs)
  then obtain b where "p x = Inr b" by auto
  with Cons show ?case by (cases b) simp_all
qed

lemma filter_js_throws:
  "\<exists>x\<in>set xs. p x = Inl e \<Longrightarrow> \<forall>x\<in>set xs. p x = Inl e \<or> (\<exists>b. p x = Inr b) \<Longrightarrow>
   filter_js p xs = Inl e"
proof (induction xs)
  case Nil
  then show ?case by simp
next
  case (Cons x xs)
  show ?case
  proof (cases "p x")
    case (Inl e')
    with Cons.prems show ?thesis by auto
  next
    case (Inr b)
    with Cons.prems have "\<exists>x\<in>set xs. p x = Inl e" by auto
    with Cons Inr show ?thesis by simp
  qed
qed

lemma optional_match_absent: "optional_match None q = False"
  by (simp add: optional_match_def)

lemma filteredData_total:
  "filteredData s =
     Inr (filter (\<lambda>emp. optional_match (full_name emp) (search s) \<or>
                          optional_match (emp_id emp) (search s) \<or>
                          optional_match (username emp) (search s)) (employees s))"
  unfolding filteredData_def
  by (subst filter_js_total) (simp_all add: credentials_match_def)

lemma filteredEmployees_present:
  assumes "\<forall>emp\<in>set (employees s). emp_id emp \<noteq> None"
  shows "filteredEmployees s =
     Inr (filter (\<lambda>emp. optional_match (emp_id emp) (searchQuery s) \<or>
                          optional_match (full_name emp) (searchQuery s) \<or>
                          optional_match (department_name emp) (searchQuery s)) (employees s))"
proof -
  have m: "performance_match q emp =
      Inr (optional_match (emp_id emp) q \<or> optional_match (full_name emp) q \<or>
           optional_match (department_name emp) q)" if "emp_id emp \<noteq> None" for q and emp :: employee
    using that by (auto simp: performance_match_def optional_match_def)
  have "filteredEmployees s =
      Inr (filter (\<lambda>emp. performance_match (searchQuery s) emp = Inr True) (employees s))"
    unfolding filteredEmployees_def using assms by (intro filter_js_total) (simp add: m)
  also have "filter (\<lambda>emp. performance_match (searchQuery s) emp = Inr True) (employees s) =
      filter (\<lambda>emp. optional_match (emp_id emp) (searchQuery s) \<or>
                          optional_match (full_name emp) (searchQuery s) \<or>
                          optional_match (department_name emp) (searchQuery s)) (employees s)"
    using assms by (intro filter_cong) (simp_all add: m)
  finally show ?thesis .
qed

lemma filteredEmployees_absent:
  assumes "\<exists>emp\<in>set (employees s). emp_id emp = None"
  shows "filteredEmployees s = Inl TypeError"
  unfolding filteredEmployees_def
proof (rule filter_js_throws)
  from assms obtain emp where "emp \<in> set (employees s)" "emp_id emp = None" by blast
  then have "performance_match (searchQuery s) emp = Inl TypeError"
    by (simp add: performance_match_def)
  with \<open>emp \<in> set (employees s)\<close>
  show "\<exists>x\<in>set (employees s). performance_match (searchQuery s) x = Inl TypeError"
    by blast
  show "\<forall>x\<in>set (employees s). performance_match (searchQuery s) x = Inl TypeError \<or>
      (\<exists>b. performance_match (searchQuery s) x = Inr b)"
    by (auto simp: performance_match_def split: option.split)
qed

text \<open>
  Claim C5.  The claim has both filters treat a record with an absent searched field as not
  matching on that field, without an error.  The credentials filter does (lemma
  \<open>filteredData_total\<close>), and so does the performance filter for the full name and the
  department name (lemma \<open>filteredEmployees_present\<close>).  The employee id of the performance
  filter is read without \<open>?.\<close>: with one record that has a full name and no employee id,
  and the query \<open>ann\<close>, the performance filter throws a \<open>TypeError\<close>, where the credentials
  filter keeps the record.
\<close>

theorem filteredEmployees_throws:
  "filteredEmployees (initial_perf\<lparr>employees := [blank\<lparr>full_name := Some ''Ann''\<rparr>],
                                   searchQuery := ''ann''\<rparr>) = Inl TypeError \<and>
   filteredData (initial_login\<lparr>employees := [blank\<lparr>full_name := Some ''Ann''\<rparr>],
                                search := ''ann''\<rparr>) = Inr [blank\<lparr>full_name := Some ''Ann''\<rparr>]"
proof -
  have "toLowerCase ''Ann'' = ''ann''" "toLowerCase ''ann'' = ''ann''"
    by code_simp+
  then show ?thesis
    by (simp add: filteredEmployees_def filteredData_def initial_perf_def initial_login_def
      performance_match_def credentials_match_def optional_match_def blank_def)
qed

section \<open>Properties of the password regeneration\<close>

lemma regeneratePassword_employees:
  assumes "post (REGENERATE_URL @ template empId @ ''/'') = Response True (Some data)"
  shows "employees (regeneratePassword post empId s) =
     map (\<lambda>emp. if emp_id emp = empId
                then emp\<lparr>password := Some (or_else (data_temp_password data)
                                             (or_else (data_password data) []))\<rparr>
                else emp) (employees s)"
  using assms by (simp add: regeneratePassword_def Let_def)

text \<open>
  Claim C7.  When the regeneration request for \<open>empId\<close> succeeds, the list keeps its length
  and its order; every row whose \<open>emp_id\<close> equals \<open>empId\<close> is the old row with only the
  password replaced, and every other row is unchanged.  The new password is the server's
  \<open>temp_password\<close> when that is a non-empty string, else its \<open>password\<close> when that is a
  non-empty string, else the empty string.
\<close>

theorem regeneratePassword_success:
  assumes "post (REGENERATE_URL @ template empId @ ''/'') = Response True (Some data)"
    and "v = or_else (data_temp_password data) (or_else (data_password data) [])"
  shows "length (employees (regeneratePassword post empId s)) = length (employees s) \<and>
     (\<forall>i<length (employees s).
        employees (regeneratePassword post empId s) ! i =
          (if emp_id (employees s ! i) = empId then (employees s ! i)\<lparr>password := Some v\<rparr>
           else employees s ! i)) \<and>
     (\<not> falsy (data_temp_password data) \<longrightarrow> data_temp_password data = Some v) \<and>
     (falsy (data_temp_password data) \<and> \<not> falsy (data_password data) \<longrightarrow>
        data_password data = Some v) \<and>
     (falsy (data_temp_password data) \<and> falsy (data_password data) \<longrightarrow> v = [])"
proof -
  note emps = regeneratePassword_employees [of post empId data s, OF assms(1)]
  have "length (employees (regeneratePassword post empId s)) = length (employees s)"
    by (simp add: emps)
  moreover have "\<forall>i<length (employees s).
        employees (regeneratePassword post empId s) ! i =
          (if emp_id (employees s ! i) = empId then (employees s ! i)\<lparr>password := Some v\<rparr>
           else employees s ! i)"
    by (simp add: emps assms(2))
  moreover have "\<not> falsy (data_temp_password data) \<longrightarrow> data_temp_password data = Some v"
    by (auto simp: assms(2) or_else_def falsy_def split: option.splits)
  moreover have "falsy (data_temp_password data) \<and> \<not> falsy (data_password data) \<longrightarrow>
        data_password data = Some v"
    by (auto simp: assms(2) or_else_def falsy_def split: option.splits)
  moreover have "falsy (data_temp_password data) \<and> falsy (data_password data) \<longrightarrow> v = []"
    by (auto simp: assms(2) or_else_def falsy_def split: option.splits)
  ultimately show ?thesis by blast
qed

theorem regeneratePassword_success_witness:
  "employees
     (regeneratePassword
        (\<lambda>url. Response True (Some \<lparr>data_temp_password = Some '''', data_password = Some ''pw2'',
                                     data_message = None, data_error = None\<rparr>))
        (Some ''E1'')
        (initial_login\<lparr>employees :=
           [blank\<lparr>emp_id := Some ''E1'', username := Some ''ann'', password := Some ''old1''\<rparr>,
            blank\<lparr>emp_id := Some ''E2'', username := Some ''bob'', password := Some ''old2''\<rparr>]\<rparr>)) =
     [blank\<lparr>emp_id := Some ''E1'', username := Some ''ann'', password := Some ''pw2''\<rparr>,
      blank\<lparr>emp_id := Some ''E2'', username := Some ''bob'', password := Some ''old2''\<rparr>]"
  using regeneratePassword_success
    [of "\<lambda>url. Response True (Some \<lparr>data_temp_password = Some '''', data_password = Some ''pw2'',
                                     data_message = None, data_error = None\<rparr>)"
        "Some ''E1''"
        "\<lparr>data_temp_password = Some '''', data_password = Some ''pw2'',
          data_message = None, data_error = None\<rparr>"
        "''pw2''"
        "initial_login\<lparr>employees :=
           [blank\<lparr>emp_id := Some ''E1'', username := Some ''ann'', password := Some ''old1''\<rparr>,
            blank\<lparr>emp_id := Some ''E2'', username := Some ''bob'', password := Some ''old2''\<rparr>]\<rparr>"]
  by (simp add: regeneratePassword_def initial_login_def blank_def or_else_def Let_def)

section \<open>Properties of the fetchers on failure\<close>

lemma fetchPerformanceData_failed:
  assumes "axios_failed (axios_get (paginatedUrl (selectedWeek s) (page s) (pageSize s)))"
  shows "fetchPerformanceData axios_get s =
     s\<lparr>console := console s @ [''Error fetching performance data:''], loading := False\<rparr>"
  using assms
  by (auto simp: fetchPerformanceData_def axios_failed_def Let_def split: axios_result.splits option.splits)

lemma fetchEmployees_failed:
  assumes "fetch_failed (fetch url)"
  shows "fetchEmployees fetch url t =
     t\<lparr>console := console t @ [''Error fetching employees:''],
       alert := \<lparr>alert_show = True, alert_message = ''Error fetching employee data.'',
                 alert_type = ''danger''\<rparr>,
       loading := False\<rparr>"
  using assms
  by (auto simp: fetchEmployees_def fetch_failed_def Let_def split: fetch_result.splits option.splits)

text \<open>
  The resolved requests of the performance screen, which are not failed fetches: a body that
  is \<open>null\<close> throws inside the \<open>try\<close> and ends in the \<open>catch\<close> as well, while a body
  without records, a string for one, takes the success path and empties the list.
\<close>

lemma fetchPerformanceData_null_body:
  assumes "axios_get (paginatedUrl (selectedWeek s) (page s) (pageSize s)) = Resolved None"
  shows "fetchPerformanceData axios_get s =
     s\<lparr>console := console s @ [''Error fetching performance data:''], loading := False\<rparr>"
  using assms by (simp add: fetchPerformanceData_def Let_def)

lemma fetchPerformanceData_no_records:
  assumes "axios_get (paginatedUrl (selectedWeek s) (page s) (pageSize s)) = Resolved (Some backend)"
    and "backend_results_records backend = None" and "backend_records backend = None"
  shows "employees (fetchPerformanceData axios_get s) = []"
  using assms by (simp add: fetchPerformanceData_def Let_def)

text \<open>
  Claim C4, as the code has it.  On every failed fetch, a network error or a response that
  is not a success and is thrown, the credentials fetcher shows the generic alert
  \<open>Error fetching employee data.\<close> and leaves the record list unchanged.  The performance
  fetcher writes to the console and clears the loading flag, and nothing else: it shows no
  error, and it leaves the record list unchanged as well.
\<close>

theorem fetch_failure_state:
  "(axios_failed (axios_get (paginatedUrl (selectedWeek s) (page s) (pageSize s))) \<longrightarrow>
      fetchPerformanceData axios_get s =
        s\<lparr>console := console s @ [''Error fetching performance data:''], loading := False\<rparr> \<and>
      employees (fetchPerformanceData axios_get s) = employees s) \<and>
   (fetch_failed (fetch url) \<longrightarrow>
      fetchEmployees fetch url t =
        t\<lparr>console := console t @ [''Error fetching employees:''],
          alert := \<lparr>alert_show = True, alert_message = ''Error fetching employee data.'',
                    alert_type = ''danger''\<rparr>,
          loading := False\<rparr> \<and>
      employees (fetchEmployees fetch url t) = employees t \<and>
      alert (fetchEmployees fetch url t) =
        \<lparr>alert_show = True, alert_message = ''Error fetching employee data.'',
         alert_type = ''danger''\<rparr>)"
  by (simp add: fetchPerformanceData_failed fetchEmployees_failed)

theorem fetch_failure_state_witness:
  "employees (fetchPerformanceData (\<lambda>url. Rejected) (initial_perf\<lparr>employees := [scored 90]\<rparr>)) =
     [scored 90] \<and>
   employees (fetchEmployees (\<lambda>url. Response False None) API_URL
                (initial_login\<lparr>employees := [scored 90]\<rparr>)) = [scored 90] \<and>
   alert_type (alert (fetchEmployees (\<lambda>url. Response False None) API_URL
                (initial_login\<lparr>employees := [scored 90]\<rparr>))) = ''danger''"
  using fetch_failure_state [of "\<lambda>url. Rejected" "initial_perf\<lparr>employees := [scored 90]\<rparr>"
      "\<lambda>url. Response False None" API_URL "initial_login\<lparr>employees := [scored 90]\<rparr>"]
  by (simp add: axios_failed_def fetch_failed_def initial_perf_def initial_login_def)

text \<open>
  The claim as the specification words it, that the performance fetcher shows an error and
  sets the list to the empty list, fails: after a rejected request a list with one record
  is still there, and the state differs from the one before only in the console and the
  loading flag.
\<close>

theorem fetchPerformanceData_failure_counterexample:
  "axios_failed (Rejected :: summary_body axios_result) \<and>
   employees (fetchPerformanceData (\<lambda>url. Rejected) (initial_perf\<lparr>employees := [scored 90]\<rparr>)) \<noteq> [] \<and>
   fetchPerformanceData (\<lambda>url. Rejected) (initial_perf\<lparr>employees := [scored 90]\<rparr>) =
     initial_perf\<lparr>employees := [scored 90],
                   console := [''Error fetching performance data:''], loading := False\<rparr>"
  by (simp add: axios_failed_def fetchPerformanceData_def Let_def initial_perf_def)

section \<open>Properties of the column sort\<close>

lemma mset_insort_cmp: "mset (insort_cmp cmp x ys) = add_mset x (mset ys)"
  by (induction ys) simp_all

lemma mset_js_sort: "mset (js_sort cmp xs) = mset xs"
  by (induction xs) (simp_all add: js_sort_def mset_insort_cmp)

lemma set_js_sort: "set (js_sort cmp xs) = set xs"
  using mset_js_sort [of cmp xs] by (metis set_mset_mset)

lemma js_sort_Cons: "js_sort cmp (x # xs) = insort_cmp cmp x (js_sort cmp xs)"
  by (simp add: js_sort_def)




lemma set_insort_cmp: "set (insort_cmp cmp x ys) = insert x (set ys)"
  using mset_insort_cmp [of cmp x ys] by (metis set_mset_add_mset_insert set_mset_mset)

lemma insort_cmp_descending:
  fixes f :: "'a \<Rightarrow> 'v::linorder"
  assumes "\<forall>y\<in>set ys. (cmp x y \<le> 0) = (f y \<le> f x)"
    and "sorted_wrt (\<lambda>a b. f b \<le> f a) ys"
  shows "sorted_wrt (\<lambda>a b. f b \<le> f a) (insort_cmp cmp x ys)"
  using assms
proof (induction ys)
  case Nil
  then show ?case by simp
next
  case (Cons y ys)
  show ?case
  proof (cases "cmp x y \<le> 0")
    case True
    with Cons.prems have "f y \<le> f x" by simp
    moreover from Cons.prems have "\<forall>b\<in>set ys. f b \<le> f y" by simp
    ultimately have "\<forall>b\<in>set (y # ys). f b \<le> f x" by auto
    with True Cons.prems(2) show ?thesis by simp
  next
    case False
    with Cons.prems have "f x \<le> f y" by auto
    moreover from Cons.prems have "\<forall>b\<in>set ys. f b \<le> f y" by simp
    ultimately have "\<forall>b\<in>set (insort_cmp cmp x ys). f b \<le> f y"
      by (simp add: set_insort_cmp)
    moreover from Cons.prems have "sorted_wrt (\<lambda>a b. f b \<le> f a) (insort_cmp cmp x ys)"
      by (intro Cons.IH) simp_all
    ultimately show ?thesis using False by simp
  qed
qed

lemma js_sort_descending:
  fixes f :: "'a \<Rightarrow> 'v::linorder"
  assumes "\<forall>x\<in>set xs. \<forall>y\<in>set xs. (cmp x y \<le> 0) = (f y \<le> f x)"
  shows "sorted_wrt (\<lambda>a b. f b \<le> f a) (js_sort cmp xs)"
  using assms
proof (induction xs)
  case Nil
  then show ?case by (simp add: js_sort_def)
next
  case (Cons x xs)
  then have "sorted_wrt (\<lambda>a b. f b \<le> f a) (js_sort cmp xs)" by simp
  moreover from Cons.prems have "\<forall>y\<in>set (js_sort cmp xs). (cmp x y \<le> 0) = (f y \<le> f x)"
    by (simp add: set_js_sort)
  ultimately show ?case
    unfolding js_sort_Cons by (intro insort_cmp_descending)
qed


lemma sort_comparator_desc:
  fixes f :: "'a employee_scheme \<Rightarrow> 'v::linorder"
  assumes "js_less (property k a) (property k b) = (f a < f b)"
    and "js_less (property k b) (property k a) = (f b < f a)"
  shows "(sort_comparator k ''desc'' a b \<le> 0) = (f b \<le> f a)"
  using assms by (auto simp: sort_comparator_def js_greater_def)







lemma sort_descending:
  fixes f :: "'a employee_scheme \<Rightarrow> 'v::linorder"
  assumes rel: "\<forall>a\<in>set xs. \<forall>b\<in>set xs. js_less (property k a) (property k b) = (f a < f b)"
  shows "descending k (js_sort (sort_comparator k ''desc'') xs)"
proof -
  have less: "(\<not> js_less (property k a) (property k b)) = (f b \<le> f a)"
    if "a \<in> set xs" "b \<in> set xs" for a b
    using that rel by (auto simp: not_less)
  have "sorted_wrt (\<lambda>a b. f b \<le> f a) (js_sort (sort_comparator k ''desc'') xs)"
  proof (rule js_sort_descending, intro ballI)
    fix x y assume "x \<in> set xs" "y \<in> set xs"
    with rel show "(sort_comparator k ''desc'' x y \<le> 0) = (f y \<le> f x)"
      by (intro sort_comparator_desc) auto
  qed
  then show ?thesis
    unfolding descending_def
    by (rule sorted_wrt_mono_rel [rotated]) (simp add: less set_js_sort)
qed


lemma handleSort_employees:
  "employees (handleSort k s) =
     js_sort (sort_comparator k
               (if key (sortConfig s) = Some k \<and> direction (sortConfig s) = ''asc''
                then ''desc'' else ''asc'')) (employees s)"
  by (simp add: handleSort_def Let_def)

lemma handleSort_set: "set (employees (handleSort k s)) = set (employees s)"
  by (simp add: handleSort_employees set_js_sort)








end
